theory Spec2Isabelle
  imports Complex_Main "HOL-Library.Word"
begin

section \<open>Python values carried by the protocol\<close>

text \<open>
  \<open>json.loads\<close> yields \<open>None\<close>, booleans, unbounded integers, floats, strings, lists and
  dicts. A float is kept as mantissa and binary exponent (or an infinity, or NaN); the only
  thing the companion server ever asks of one is whether it is zero. A dict is an
  association list read with \<open>map_of\<close>: the list stands for the dict that the parser built.
\<close>

datatype pyfloat = FloatVal int int | FloatInf bool | FloatNaN

datatype json =
    JNull
  | JBool bool
  | JInt int
  | JFloat pyfloat
  | JStr string
  | JArr "json list"
  | JObj "(string \<times> json) list"

type_synonym pydict = "(string \<times> json) list"

text \<open>\<open>d.get(k)\<close> and \<open>d.get(k, default)\<close>: a missing key gives \<open>None\<close> (resp. the default).\<close>

definition dict_get_default :: "pydict \<Rightarrow> string \<Rightarrow> json \<Rightarrow> json" where
  "dict_get_default d k dflt = (case map_of d k of None \<Rightarrow> dflt | Some v \<Rightarrow> v)"

definition dict_get :: "pydict \<Rightarrow> string \<Rightarrow> json" where
  "dict_get d k = dict_get_default d k JNull"

text \<open>Whether the frame itself carries a field of that name, whatever its value.\<close>

definition has_field :: "pydict \<Rightarrow> string \<Rightarrow> bool" where
  "has_field d k = (map_of d k \<noteq> None)"

text \<open>Python truth value testing, as used by \<open>if key:\<close>.\<close>

fun float_nonzero :: "pyfloat \<Rightarrow> bool" where
  "float_nonzero (FloatVal m e) = (m \<noteq> 0)"
| "float_nonzero (FloatInf s) = True"
| "float_nonzero FloatNaN = True"

fun truthy :: "json \<Rightarrow> bool" where
  "truthy JNull = False"
| "truthy (JBool b) = b"
| "truthy (JInt i) = (i \<noteq> 0)"
| "truthy (JFloat f) = float_nonzero f"
| "truthy (JStr s) = (s \<noteq> [])"
| "truthy (JArr xs) = (xs \<noteq> [])"
| "truthy (JObj d) = (d \<noteq> [])"

section \<open>The world around \<open>handle_client\<close>\<close>

text \<open>
  The calls that reach pyautogui and mss (the Input Bridge), in the order they are made,
  interleaved with the writes to the global \<open>last_activity\<close> and the frames handed to
  \<open>websocket.send\<close>. A sent frame is represented by the dict given to \<open>json.dumps\<close>.
\<close>

datatype bridge_call =
    Click json json
  | MoveTo json json
  | Typewrite json
  | Press json
  | Grab

datatype effect = SetActivity real | Call bridge_call | Send json

datatype exn = AttributeError | LoadsError | BridgeError | ConnectionClosed | OSError

text \<open>
  What \<open>json.loads(message)\<close> does on an inbound frame: it returns a value, raises
  \<open>json.JSONDecodeError\<close>, or raises something else (a binary frame that is not valid
  UTF-8 raises \<open>UnicodeDecodeError\<close>).
\<close>

datatype loads_result = Parsed json | JSONDecodeError | OtherLoadsError

type_synonym bytes = "8 word list"

record raw_image =
  img_size :: "nat \<times> nat"
  img_rgb :: bytes

text \<open>
  One iteration of \<open>async for message in websocket\<close>: the frame (by what \<open>json.loads\<close>
  makes of it), the reading of \<open>time.time()\<close> taken if the frame decodes, what
  \<open>sct.grab(sct.monitors[0])\<close> would return, and whether the pyautogui/mss/PIL call or
  \<open>websocket.send\<close> of this iteration raises.
\<close>

record event =
  loads :: loads_result
  now :: real
  capture :: raw_image
  bridge_raises :: bool
  send_raises :: bool


text \<open>Library functions the server calls but does not define.\<close>

record libs =
  jpeg_save :: "nat \<Rightarrow> raw_image \<Rightarrow> bytes"
  b64encode :: "bytes \<Rightarrow> string"
  json_dumps :: "json \<Rightarrow> string"
  json_loads :: "string \<Rightarrow> json option"

text \<open>The module globals \<open>last_activity\<close> and \<open>mode\<close>.\<close>

record globals =
  last_activity :: real
  mode :: json

section \<open>\<open>handle_client\<close>\<close>

definition invoke :: "event \<Rightarrow> bridge_call \<Rightarrow> effect list \<times> exn option" where
  "invoke ev c = ([Call c], if bridge_raises ev then Some BridgeError else None)"

definition screenshot_reply :: "libs \<Rightarrow> raw_image \<Rightarrow> json" where
  "screenshot_reply L img =
     JObj [(''type'', JStr ''screenshot''),
           (''data'', JStr (b64encode L (jpeg_save L 60 img)))]"

text \<open>The \<open>if\<close>/\<open>elif\<close> chain on \<open>cmd_type\<close>, for a frame that decoded to a dict.\<close>

definition dispatch :: "libs \<Rightarrow> event \<Rightarrow> pydict \<Rightarrow> effect list \<times> exn option" where
  "dispatch L ev d =
     (let cmd_type = dict_get d ''type'' in
      if cmd_type = JStr ''click'' then
        (let x = dict_get d ''x''; y = dict_get d ''y'' in
         if x \<noteq> JNull \<and> y \<noteq> JNull then invoke ev (Click x y) else ([], None))
      else if cmd_type = JStr ''move'' then
        (let x = dict_get d ''x''; y = dict_get d ''y'' in
         if x \<noteq> JNull \<and> y \<noteq> JNull then invoke ev (MoveTo x y) else ([], None))
      else if cmd_type = JStr ''type_text'' then
        (let text = dict_get_default d ''text'' (JStr '''') in invoke ev (Typewrite text))
      else if cmd_type = JStr ''key'' then
        (let key = dict_get d ''key'' in
         if truthy key then invoke ev (Press key) else ([], None))
      else if cmd_type = JStr ''screenshot'' then
        (if bridge_raises ev then ([Call Grab], Some BridgeError)
         else if send_raises ev then ([Call Grab], Some ConnectionClosed)
         else ([Call Grab, Send (screenshot_reply L (capture ev))], None))
      else ([], None))"

text \<open>
  The body of the receive loop. \<open>data.get\<close> on a decoded value that is not a dict raises
  \<open>AttributeError\<close>, which nothing catches.
\<close>

definition handle_message ::
  "libs \<Rightarrow> globals \<Rightarrow> event \<Rightarrow> globals \<times> effect list \<times> exn option" where
  "handle_message L g ev =
     (case loads ev of
        JSONDecodeError \<Rightarrow> (g, [], None)
      | OtherLoadsError \<Rightarrow> (g, [], Some LoadsError)
      | Parsed data \<Rightarrow>
          (let g' = g\<lparr>last_activity := now ev\<rparr> in
           case data of
             JObj d \<Rightarrow> (let (es, r) = dispatch L ev d in (g', SetActivity (now ev) # es, r))
           | _ \<Rightarrow> (g', [SetActivity (now ev)], Some AttributeError)))"

text \<open>
  The loop over the frames received until the peer closes the connection; an exception
  that escapes the body ends the handler, and the frames after it are never read.
\<close>

fun receive_loop ::
  "libs \<Rightarrow> globals \<Rightarrow> event list \<Rightarrow> globals \<times> effect list \<times> exn option" where
  "receive_loop L g [] = (g, [], None)"
| "receive_loop L g (ev # evs) =
     (case handle_message L g ev of
        (g', es, Some e) \<Rightarrow> (g', es, Some e)
      | (g', es, None) \<Rightarrow>
          (case receive_loop L g' evs of (g'', es', r) \<Rightarrow> (g'', es @ es', r)))"

text \<open>\<open>t0\<close> is the reading of \<open>time.time()\<close> taken when the handler starts.\<close>

definition handle_client ::
  "libs \<Rightarrow> real \<Rightarrow> globals \<Rightarrow> event list \<Rightarrow> globals \<times> effect list \<times> exn option" where
  "handle_client L t0 g evs =
     (case receive_loop L (g\<lparr>last_activity := t0\<rparr>) evs of
        (g', es, r) \<Rightarrow> (g', SetActivity t0 # es, r))"

text \<open>Projections of a run.\<close>

fun bridge_calls :: "effect list \<Rightarrow> bridge_call list" where
  "bridge_calls [] = []"
| "bridge_calls (Call c # es) = c # bridge_calls es"
| "bridge_calls (_ # es) = bridge_calls es"

fun sent :: "effect list \<Rightarrow> json list" where
  "sent [] = []"
| "sent (Send j # es) = j # sent es"
| "sent (_ # es) = sent es"


definition effects_of :: "globals \<times> effect list \<times> exn option \<Rightarrow> effect list" where
  "effects_of r = fst (snd r)"

definition raised :: "globals \<times> effect list \<times> exn option \<Rightarrow> exn option" where
  "raised r = snd (snd r)"

definition globals_of :: "globals \<times> effect list \<times> exn option \<Rightarrow> globals" where
  "globals_of r = fst r"

section \<open>\<open>start_inactivity_monitor\<close>\<close>

datatype proc_state = Active | Terminated

text \<open>
  One pass of the \<open>while True\<close> body after \<open>time.sleep(60)\<close>: \<open>t\<close> is the reading of
  \<open>time.time()\<close>, \<open>g\<close> the globals as the thread finds them. \<open>Terminated\<close> is \<open>os._exit(0)\<close>.
\<close>

definition monitor_poll :: "globals \<Rightarrow> real \<Rightarrow> proc_state" where
  "monitor_poll g t =
     (if mode g = JStr ''temporary'' then
        (if t - last_activity g > 7200 then Terminated else Active)
      else Active)"

text \<open>The loop, over the successive polls (the globals and the clock at each wake-up).\<close>

fun monitor :: "(globals \<times> real) list \<Rightarrow> proc_state" where
  "monitor [] = Active"
| "monitor ((g, t) # ps) =
     (case monitor_poll g t of Terminated \<Rightarrow> Terminated | Active \<Rightarrow> monitor ps)"

section \<open>\<open>load_mode\<close> and \<open>save_mode\<close>\<close>

text \<open>
  The per-user configuration location: the directory \<open>VisualEyesPC\<close> under the base
  directory is missing, is occupied by something that is not a directory, or is a directory
  that may hold \<open>config.json\<close> with some content. The remaining fields say which of the
  operating-system calls made by the two functions fail.
\<close>

datatype dir_state = Missing | NotDir | Dir "string option"

datatype write_fault = NoFault | OpenRaises | DumpRaises nat

record disk =
  config_dir :: dir_state
  can_mkdir :: bool
  can_read :: bool
  write_fault :: write_fault

text \<open>\<open>os.makedirs(path, exist_ok=True)\<close>, then the path of the file.\<close>

definition get_config_path :: "disk \<Rightarrow> exn + disk" where
  "get_config_path dk =
     (case config_dir dk of
        Dir c \<Rightarrow> Inr dk
      | NotDir \<Rightarrow> Inl OSError
      | Missing \<Rightarrow> if can_mkdir dk then Inr (dk\<lparr>config_dir := Dir None\<rparr>) else Inl OSError)"

definition load_mode :: "libs \<Rightarrow> disk \<Rightarrow> (exn + json) \<times> disk" where
  "load_mode L dk =
     (case get_config_path dk of
        Inl e \<Rightarrow> (Inl e, dk)
      | Inr dk' \<Rightarrow>
          (case config_dir dk' of
             Dir (Some content) \<Rightarrow>
               (if can_read dk' then
                  (case json_loads L content of
                     Some (JObj data) \<Rightarrow> (Inr (dict_get data ''mode''), dk')
                   | _ \<Rightarrow> (Inr JNull, dk'))
                else (Inr JNull, dk'))
           | _ \<Rightarrow> (Inr JNull, dk')))"

definition save_mode :: "libs \<Rightarrow> disk \<Rightarrow> json \<Rightarrow> (exn + unit) \<times> disk" where
  "save_mode L dk v =
     (case get_config_path dk of
        Inl e \<Rightarrow> (Inl e, dk)
      | Inr dk' \<Rightarrow>
          (let out = json_dumps L (JObj [(''mode'', v)]) in
           case write_fault dk' of
             OpenRaises \<Rightarrow> (Inr (), dk')
           | DumpRaises n \<Rightarrow> (Inr (), dk'\<lparr>config_dir := Dir (Some (take n out))\<rparr>)
           | NoFault \<Rightarrow> (Inr (), dk'\<lparr>config_dir := Dir (Some out)\<rparr>)))"

section \<open>Sample inputs\<close>

text \<open>Stand-ins for the library functions, for evaluating the model on concrete frames.\<close>

definition null_libs :: libs where
  "null_libs =
     \<lparr>jpeg_save = (\<lambda>q img. img_rgb img), b64encode = (\<lambda>bs. map (\<lambda>b. CHR ''A'') bs),
      json_dumps = (\<lambda>j. []), json_loads = (\<lambda>s. None)\<rparr>"

text \<open>A frame that \<open>json.loads\<close> turns into \<open>j\<close>, read at time \<open>t\<close>, with no call failing.\<close>

definition frame :: "json \<Rightarrow> real \<Rightarrow> event" where
  "frame j t =
     \<lparr>loads = Parsed j, now = t,
      capture = \<lparr>img_size = (1, 1), img_rgb = [0, 0, 0]\<rparr>,
      bridge_raises = False, send_raises = False\<rparr>"


section \<open>Basic facts about the model\<close>

lemmas dict_defs = dict_get_def dict_get_default_def has_field_def

lemma proj_simps [simp]:
  "effects_of (g, es, r) = es" "raised (g, es, r) = r" "globals_of (g, es, r) = g"
  by (simp_all add: effects_of_def raised_def globals_of_def)

lemma dict_get_absent: "\<not> has_field d k \<Longrightarrow> dict_get d k = JNull"
  by (simp add: has_field_def dict_get_def dict_get_default_def)

lemma dict_get_not_null: "dict_get d k \<noteq> JNull \<Longrightarrow> has_field d k"
  using dict_get_absent by blast


lemma truthy_has_field: "truthy (dict_get d k) \<Longrightarrow> has_field d k"
  by (cases "has_field d k") (simp_all add: dict_get_absent)

lemma handle_message_dict:
  "loads ev = Parsed (JObj d) \<Longrightarrow>
   handle_message L g ev =
     (g\<lparr>last_activity := now ev\<rparr>, SetActivity (now ev) # fst (dispatch L ev d), snd (dispatch L ev d))"
  by (simp add: handle_message_def split: prod.splits)

lemma handle_message_not_dict:
  "loads ev = Parsed j \<Longrightarrow> \<forall>d. j \<noteq> JObj d \<Longrightarrow>
   handle_message L g ev = (g\<lparr>last_activity := now ev\<rparr>, [SetActivity (now ev)], Some AttributeError)"
  by (cases j) (simp_all add: handle_message_def)

lemma sent_dispatch:
  "sent (fst (dispatch L ev d)) =
     (if dict_get d ''type'' = JStr ''screenshot'' \<and> \<not> bridge_raises ev \<and> \<not> send_raises ev
      then [screenshot_reply L (capture ev)] else [])"
  by (simp add: dispatch_def invoke_def Let_def)


lemma dispatch_unknown_type:
  "dict_get d ''type'' \<notin> {JStr ''click'', JStr ''move'', JStr ''type_text'', JStr ''key'',
      JStr ''screenshot''} \<Longrightarrow> dispatch L ev d = ([], None)"
  by (simp add: dispatch_def)

section \<open>Pointer commands\<close>

text \<open>
  C1, as stated, says that a \<open>click\<close> or \<open>move\<close> frame in which both \<open>x\<close> and \<open>y\<close> are present
  leads to exactly one pointer call. The frame
  \<open>{"type": "click", "x": null, "y": 5}\<close> carries both fields, and \<open>handle_client\<close> makes
  no call for it: the test is \<open>x is not None and y is not None\<close>, and \<open>data.get\<close> returns
  \<open>None\<close> for an explicit \<open>null\<close> as it does for a missing key.
\<close>

theorem click_null_counterexample:
  "has_field [(''type'', JStr ''click''), (''x'', JNull), (''y'', JInt 5)] ''x'' \<and>
   has_field [(''type'', JStr ''click''), (''x'', JNull), (''y'', JInt 5)] ''y'' \<and>
   bridge_calls (effects_of (handle_message null_libs \<lparr>last_activity = 0, mode = JStr ''temporary''\<rparr>
      (frame (JObj [(''type'', JStr ''click''), (''x'', JNull), (''y'', JInt 5)]) 1))) = []"
  by (simp add: has_field_def handle_message_def frame_def dispatch_def dict_get_def
      dict_get_default_def effects_of_def)

text \<open>
  C1 (amended): for every decoded frame of type \<open>click\<close> (resp. \<open>move\<close>), if the values
  obtained for \<open>x\<close> and \<open>y\<close> are both other than \<open>None\<close>, the Input Bridge receives exactly one
  \<open>click\<close> (resp. \<open>moveTo\<close>) call with exactly those two values; if either field is absent, or
  present with the value \<open>null\<close>, no Input Bridge call is made for that frame.
\<close>

theorem click_move_present_not_null:
  assumes "loads ev = Parsed (JObj d)"
  shows "(dict_get d ''type'' = JStr ''click'' \<longrightarrow>
            (dict_get d ''x'' \<noteq> JNull \<and> dict_get d ''y'' \<noteq> JNull \<longrightarrow>
               bridge_calls (effects_of (handle_message L g ev)) =
                 [Click (dict_get d ''x'') (dict_get d ''y'')]) \<and>
            (\<not> has_field d ''x'' \<or> \<not> has_field d ''y'' \<or>
             dict_get d ''x'' = JNull \<or> dict_get d ''y'' = JNull \<longrightarrow>
               bridge_calls (effects_of (handle_message L g ev)) = [])) \<and>
         (dict_get d ''type'' = JStr ''move'' \<longrightarrow>
            (dict_get d ''x'' \<noteq> JNull \<and> dict_get d ''y'' \<noteq> JNull \<longrightarrow>
               bridge_calls (effects_of (handle_message L g ev)) =
                 [MoveTo (dict_get d ''x'') (dict_get d ''y'')]) \<and>
            (\<not> has_field d ''x'' \<or> \<not> has_field d ''y'' \<or>
             dict_get d ''x'' = JNull \<or> dict_get d ''y'' = JNull \<longrightarrow>
               bridge_calls (effects_of (handle_message L g ev)) = []))"
  using assms
  by (auto simp: handle_message_dict effects_of_def dispatch_def invoke_def Let_def
      dest: dict_get_not_null)

theorem click_move_present_not_null_witness:
  "loads (frame (JObj [(''type'', JStr ''click''), (''x'', JInt 100), (''y'', JInt 200)]) 1) =
     Parsed (JObj [(''type'', JStr ''click''), (''x'', JInt 100), (''y'', JInt 200)]) \<and>
   dict_get [(''type'', JStr ''click''), (''x'', JInt 100), (''y'', JInt 200)] ''x'' \<noteq> JNull \<and>
   dict_get [(''type'', JStr ''click''), (''x'', JInt 100), (''y'', JInt 200)] ''y'' \<noteq> JNull \<and>
   bridge_calls (effects_of (handle_message null_libs \<lparr>last_activity = 0, mode = JStr ''temporary''\<rparr>
     (frame (JObj [(''type'', JStr ''click''), (''x'', JInt 100), (''y'', JInt 200)]) 1))) =
     [Click (JInt 100) (JInt 200)]"
  using click_move_present_not_null
    [of "frame (JObj [(''type'', JStr ''click''), (''x'', JInt 100), (''y'', JInt 200)]) 1"
        "[(''type'', JStr ''click''), (''x'', JInt 100), (''y'', JInt 200)]"
        null_libs "\<lparr>last_activity = 0, mode = JStr ''temporary''\<rparr>"]
  by (simp add: frame_def dict_defs)




section \<open>Keyboard commands\<close>

text \<open>
  C8: for every decoded frame of type \<open>type_text\<close> the Input Bridge receives exactly one
  \<open>typewrite\<close> call, with the value of the \<open>text\<close> field, or with the empty string when the
  field is absent; the frame \<open>{"type": "type_text", "text": "hello"}\<close> yields the single call
  \<open>typewrite("hello")\<close>.
\<close>

theorem type_text_injection:
  "(loads ev = Parsed (JObj d) \<and> dict_get d ''type'' = JStr ''type_text'' \<longrightarrow>
      bridge_calls (effects_of (handle_message L g ev)) =
        [Typewrite (case map_of d ''text'' of None \<Rightarrow> JStr '''' | Some v \<Rightarrow> v)]) \<and>
   (loads ev = Parsed (JObj [(''type'', JStr ''type_text''), (''text'', JStr ''hello'')]) \<longrightarrow>
      bridge_calls (effects_of (handle_message L g ev)) = [Typewrite (JStr ''hello'')])"
  by (simp add: handle_message_dict effects_of_def dispatch_def invoke_def Let_def
      dict_get_def dict_get_default_def)

theorem type_text_injection_witness:
  "loads (frame (JObj [(''type'', JStr ''type_text''), (''text'', JStr ''hello'')]) 1) =
     Parsed (JObj [(''type'', JStr ''type_text''), (''text'', JStr ''hello'')]) \<and>
   bridge_calls (effects_of (handle_message null_libs \<lparr>last_activity = 0, mode = JStr ''temporary''\<rparr>
     (frame (JObj [(''type'', JStr ''type_text''), (''text'', JStr ''hello'')]) 1))) =
     [Typewrite (JStr ''hello'')] \<and>
   dict_get [(''type'', JStr ''type_text'')] ''type'' = JStr ''type_text'' \<and>
   bridge_calls (effects_of (handle_message null_libs \<lparr>last_activity = 0, mode = JStr ''temporary''\<rparr>
     (frame (JObj [(''type'', JStr ''type_text'')]) 1))) = [Typewrite (JStr '''')]"
  using type_text_injection
    [of "frame (JObj [(''type'', JStr ''type_text''), (''text'', JStr ''hello'')]) 1"
        "[(''type'', JStr ''type_text''), (''text'', JStr ''hello'')]"
        null_libs "\<lparr>last_activity = 0, mode = JStr ''temporary''\<rparr>"]
    type_text_injection
    [of "frame (JObj [(''type'', JStr ''type_text'')]) 1"
        "[(''type'', JStr ''type_text'')]"
        null_libs "\<lparr>last_activity = 0, mode = JStr ''temporary''\<rparr>"]
  by (simp add: frame_def dict_defs)

text \<open>
  C10: for every decoded frame of type \<open>key\<close>, a \<open>key\<close> field that is present with a falsy
  value (the empty string, \<open>0\<close>, \<open>false\<close>, \<open>null\<close>, an empty list or dict) has the same
  outcome as an absent one: the timestamp is written, no \<open>press\<close> call is made, nothing is
  raised.
\<close>

theorem falsy_key_ignored:
  "loads ev = Parsed (JObj d) \<and> dict_get d ''type'' = JStr ''key'' \<and>
   (\<not> has_field d ''key'' \<or> \<not> truthy (dict_get d ''key'')) \<longrightarrow>
     handle_message L g ev = (g\<lparr>last_activity := now ev\<rparr>, [SetActivity (now ev)], None) \<and>
     bridge_calls (effects_of (handle_message L g ev)) = []"
  by (auto simp: handle_message_dict effects_of_def dispatch_def invoke_def Let_def
      dest: truthy_has_field)

theorem falsy_key_ignored_witness:
  "loads (frame (JObj [(''type'', JStr ''key''), (''key'', JStr '''')]) 1) =
     Parsed (JObj [(''type'', JStr ''key''), (''key'', JStr '''')]) \<and>
   has_field [(''type'', JStr ''key''), (''key'', JStr '''')] ''key'' \<and>
   \<not> truthy (dict_get [(''type'', JStr ''key''), (''key'', JStr '''')] ''key'') \<and>
   bridge_calls (effects_of (handle_message null_libs \<lparr>last_activity = 0, mode = JStr ''temporary''\<rparr>
     (frame (JObj [(''type'', JStr ''key''), (''key'', JStr '''')]) 1))) = []"
  using falsy_key_ignored
    [of "frame (JObj [(''type'', JStr ''key''), (''key'', JStr '''')]) 1"
        "[(''type'', JStr ''key''), (''key'', JStr '''')]"
        null_libs "\<lparr>last_activity = 0, mode = JStr ''temporary''\<rparr>"]
  by (simp add: frame_def dict_defs)

section \<open>Screenshots\<close>

lemma bridge_calls_screenshot:
  "dict_get d ''type'' = JStr ''screenshot'' \<Longrightarrow> bridge_calls (fst (dispatch L ev d)) = [Grab]"
  by (simp add: dispatch_def)

lemma raised_screenshot:
  "dict_get d ''type'' = JStr ''screenshot'' \<Longrightarrow>
   snd (dispatch L ev d) =
     (if bridge_raises ev then Some BridgeError
      else if send_raises ev then Some ConnectionClosed else None)"
  by (simp add: dispatch_def)

lemma sent_not_screenshot:
  "\<not> (\<exists>d. loads ev = Parsed (JObj d) \<and> dict_get d ''type'' = JStr ''screenshot'') \<Longrightarrow>
   sent (effects_of (handle_message L g ev)) = []"
proof -
  assume other: "\<not> (\<exists>d. loads ev = Parsed (JObj d) \<and> dict_get d ''type'' = JStr ''screenshot'')"
  show ?thesis
  proof (cases "loads ev")
    case (Parsed j)
    show ?thesis
    proof (cases "\<exists>d. j = JObj d")
      case True
      then obtain d where j: "j = JObj d" ..
      with Parsed other have "dict_get d ''type'' \<noteq> JStr ''screenshot''" by simp
      with Parsed j show ?thesis
        by (simp add: handle_message_dict sent_dispatch)
    next
      case False
      with Parsed show ?thesis
        by (simp add: handle_message_not_dict)
    qed
  next
    case JSONDecodeError
    then show ?thesis by (simp add: handle_message_def)
  next
    case OtherLoadsError
    then show ?thesis by (simp add: handle_message_def)
  qed
qed

text \<open>
  C2, as stated, says that every decoded \<open>screenshot\<close> frame is answered by exactly one reply.
  Nothing in \<open>handle_client\<close> catches an exception of the capture (mss, PIL) or of
  \<open>websocket.send\<close>: when either raises, the handler ends and no reply is sent.
\<close>

theorem screenshot_capture_raises_counterexample:
  "sent (effects_of (handle_message null_libs \<lparr>last_activity = 0, mode = JStr ''temporary''\<rparr>
     ((frame (JObj [(''type'', JStr ''screenshot'')]) 1)\<lparr>bridge_raises := True\<rparr>))) = [] \<and>
   sent (effects_of (handle_message null_libs \<lparr>last_activity = 0, mode = JStr ''temporary''\<rparr>
     ((frame (JObj [(''type'', JStr ''screenshot'')]) 1)\<lparr>send_raises := True\<rparr>))) = []"
  by (simp add: frame_def handle_message_def dispatch_def dict_defs)

text \<open>
  C2 (amended): a decoded \<open>screenshot\<close> frame makes exactly one capture; if neither the
  capture nor \<open>websocket.send\<close> raises, exactly one reply is sent, the dict with \<open>type\<close> equal
  to \<open>"screenshot"\<close> and \<open>data\<close> equal to the base64 encoding of the grabbed image saved as
  JPEG at quality 60; if either raises, no reply is sent and the exception leaves the
  handler; a frame that is not a decoded \<open>screenshot\<close> frame never sends anything.
\<close>

theorem screenshot_reply_unless_raised:
  "(loads ev = Parsed (JObj d) \<and> dict_get d ''type'' = JStr ''screenshot'' \<longrightarrow>
      bridge_calls (effects_of (handle_message L g ev)) = [Grab] \<and>
      sent (effects_of (handle_message L g ev)) =
        (if bridge_raises ev \<or> send_raises ev then []
         else [JObj [(''type'', JStr ''screenshot''),
                     (''data'', JStr (b64encode L (jpeg_save L 60 (capture ev))))]]) \<and>
      raised (handle_message L g ev) =
        (if bridge_raises ev then Some BridgeError
         else if send_raises ev then Some ConnectionClosed else None)) \<and>
   (\<not> (\<exists>d. loads ev = Parsed (JObj d) \<and> dict_get d ''type'' = JStr ''screenshot'') \<longrightarrow>
      sent (effects_of (handle_message L g ev)) = [])"
proof (intro conjI impI)
  assume h: "loads ev = Parsed (JObj d) \<and> dict_get d ''type'' = JStr ''screenshot''"
  then show "bridge_calls (effects_of (handle_message L g ev)) = [Grab]"
    by (simp add: handle_message_dict bridge_calls_screenshot)
  from h show "sent (effects_of (handle_message L g ev)) =
        (if bridge_raises ev \<or> send_raises ev then []
         else [JObj [(''type'', JStr ''screenshot''),
                     (''data'', JStr (b64encode L (jpeg_save L 60 (capture ev))))]])"
    by (simp add: handle_message_dict sent_dispatch screenshot_reply_def)
  from h show "raised (handle_message L g ev) =
        (if bridge_raises ev then Some BridgeError
         else if send_raises ev then Some ConnectionClosed else None)"
    by (simp add: handle_message_dict raised_screenshot)
next
  assume "\<not> (\<exists>d. loads ev = Parsed (JObj d) \<and> dict_get d ''type'' = JStr ''screenshot'')"
  then show "sent (effects_of (handle_message L g ev)) = []" by (rule sent_not_screenshot)
qed

theorem screenshot_reply_unless_raised_witness:
  "loads (frame (JObj [(''type'', JStr ''screenshot'')]) 1) =
     Parsed (JObj [(''type'', JStr ''screenshot'')]) \<and>
   dict_get [(''type'', JStr ''screenshot'')] ''type'' = JStr ''screenshot'' \<and>
   bridge_calls (effects_of (handle_message null_libs \<lparr>last_activity = 0, mode = JStr ''temporary''\<rparr>
     (frame (JObj [(''type'', JStr ''screenshot'')]) 1))) = [Grab] \<and>
   sent (effects_of (handle_message null_libs \<lparr>last_activity = 0, mode = JStr ''temporary''\<rparr>
     (frame (JObj [(''type'', JStr ''screenshot'')]) 1))) =
     [JObj [(''type'', JStr ''screenshot''), (''data'', JStr ''AAA'')]] \<and>
   raised (handle_message null_libs \<lparr>last_activity = 0, mode = JStr ''temporary''\<rparr>
     (frame (JObj [(''type'', JStr ''screenshot'')]) 1)) = None \<and>
   sent (effects_of (handle_message null_libs \<lparr>last_activity = 0, mode = JStr ''temporary''\<rparr>
     (frame (JObj [(''type'', JStr ''key''), (''key'', JStr ''a'')]) 1))) = []"
  using screenshot_reply_unless_raised
    [of "frame (JObj [(''type'', JStr ''screenshot'')]) 1" "[(''type'', JStr ''screenshot'')]"
        null_libs "\<lparr>last_activity = 0, mode = JStr ''temporary''\<rparr>"]
    screenshot_reply_unless_raised
    [of "frame (JObj [(''type'', JStr ''key''), (''key'', JStr ''a'')]) 1" "[]"
        null_libs "\<lparr>last_activity = 0, mode = JStr ''temporary''\<rparr>"]
  by (simp add: frame_def dict_defs null_libs_def)

section \<open>The receive loop\<close>

lemma handle_message_effects_indep:
  "effects_of (handle_message L g ev) = effects_of (handle_message L g' ev)"
  "raised (handle_message L g ev) = raised (handle_message L g' ev)"
  by (auto simp: handle_message_def effects_of_def raised_def Let_def
      split: loads_result.splits json.splits prod.splits)

lemma receive_loop_Cons_ok:
  "raised (handle_message L g ev) = None \<Longrightarrow>
   receive_loop L g (ev # evs) =
     (globals_of (receive_loop L (globals_of (handle_message L g ev)) evs),
      effects_of (handle_message L g ev) @
        effects_of (receive_loop L (globals_of (handle_message L g ev)) evs),
      raised (receive_loop L (globals_of (handle_message L g ev)) evs))"
  by (cases "handle_message L g ev")
     (simp add: raised_def effects_of_def globals_of_def split: prod.splits)

lemma receive_loop_Cons_raise:
  "raised (handle_message L g ev) = Some e \<Longrightarrow>
   receive_loop L g (ev # evs) = handle_message L g ev"
  by (cases "handle_message L g ev") (simp add: raised_def)

declare receive_loop.simps(2) [simp del]

lemma receive_loop_step_ok:
  assumes "raised (handle_message L g ev) = None"
  shows "effects_of (receive_loop L g (ev # evs)) =
           effects_of (handle_message L g ev) @
           effects_of (receive_loop L (globals_of (handle_message L g ev)) evs)"
    and "raised (receive_loop L g (ev # evs)) =
           raised (receive_loop L (globals_of (handle_message L g ev)) evs)"
    and "globals_of (receive_loop L g (ev # evs)) =
           globals_of (receive_loop L (globals_of (handle_message L g ev)) evs)"
  by (simp_all only: receive_loop_Cons_ok[OF assms] proj_simps)

lemma receive_loop_raised_Cons:
  "raised (receive_loop L g (ev # evs)) = None \<Longrightarrow> raised (handle_message L g ev) = None"
  by (cases "raised (handle_message L g ev)") (simp_all add: receive_loop_Cons_raise)

lemma receive_loop_prefix:
  "\<exists>n\<le>length evs.
     effects_of (receive_loop L g evs) =
       concat (map (\<lambda>ev. effects_of (handle_message L g0 ev)) (take n evs)) \<and>
     list_all (\<lambda>ev. raised (handle_message L g0 ev) = None) (take (n - 1) evs) \<and>
     (raised (receive_loop L g evs) = None \<longrightarrow>
        n = length evs \<and> list_all (\<lambda>ev. raised (handle_message L g0 ev) = None) evs) \<and>
     (\<forall>e. raised (receive_loop L g evs) = Some e \<longrightarrow>
        0 < n \<and> raised (handle_message L g0 (evs ! (n - 1))) = Some e)"
proof (induction evs arbitrary: g)
  case Nil
  show ?case by simp
next
  case (Cons ev evs)
  have e0: "effects_of (handle_message L g ev) = effects_of (handle_message L g0 ev)"
    by (rule handle_message_effects_indep)
  have r0: "raised (handle_message L g ev) = raised (handle_message L g0 ev)"
    by (rule handle_message_effects_indep)
  show ?case
  proof (cases "raised (handle_message L g ev)")
    case (Some e)
    then have "receive_loop L g (ev # evs) = handle_message L g ev"
      by (rule receive_loop_Cons_raise)
    with Some e0 r0 have
      "Suc 0 \<le> length (ev # evs) \<and>
       effects_of (receive_loop L g (ev # evs)) =
         concat (map (\<lambda>ev. effects_of (handle_message L g0 ev)) (take (Suc 0) (ev # evs))) \<and>
       list_all (\<lambda>ev. raised (handle_message L g0 ev) = None) (take (Suc 0 - 1) (ev # evs)) \<and>
       (raised (receive_loop L g (ev # evs)) = None \<longrightarrow>
          Suc 0 = length (ev # evs) \<and>
          list_all (\<lambda>ev. raised (handle_message L g0 ev) = None) (ev # evs)) \<and>
       (\<forall>e. raised (receive_loop L g (ev # evs)) = Some e \<longrightarrow>
          0 < Suc 0 \<and> raised (handle_message L g0 ((ev # evs) ! (Suc 0 - 1))) = Some e)"
      by simp
    then show ?thesis by (rule exI[of _ "Suc 0"])
  next
    case None
    let ?g' = "globals_of (handle_message L g ev)"
    from Cons.IH[of ?g'] obtain n where n: "n \<le> length evs \<and>
       effects_of (receive_loop L ?g' evs) =
         concat (map (\<lambda>ev. effects_of (handle_message L g0 ev)) (take n evs)) \<and>
       list_all (\<lambda>ev. raised (handle_message L g0 ev) = None) (take (n - 1) evs) \<and>
       (raised (receive_loop L ?g' evs) = None \<longrightarrow>
          n = length evs \<and> list_all (\<lambda>ev. raised (handle_message L g0 ev) = None) evs) \<and>
       (\<forall>e. raised (receive_loop L ?g' evs) = Some e \<longrightarrow>
          0 < n \<and> raised (handle_message L g0 (evs ! (n - 1))) = Some e)" ..
    from None r0 have r1: "raised (handle_message L g0 ev) = None" by simp
    have "Suc n \<le> length (ev # evs) \<and>
       effects_of (receive_loop L g (ev # evs)) =
         concat (map (\<lambda>ev. effects_of (handle_message L g0 ev)) (take (Suc n) (ev # evs))) \<and>
       list_all (\<lambda>ev. raised (handle_message L g0 ev) = None) (take (Suc n - 1) (ev # evs)) \<and>
       (raised (receive_loop L g (ev # evs)) = None \<longrightarrow>
          Suc n = length (ev # evs) \<and>
          list_all (\<lambda>ev. raised (handle_message L g0 ev) = None) (ev # evs)) \<and>
       (\<forall>e. raised (receive_loop L g (ev # evs)) = Some e \<longrightarrow>
          0 < Suc n \<and> raised (handle_message L g0 ((ev # evs) ! (Suc n - 1))) = Some e)"
    proof (cases n)
      case 0
      with n r1 show ?thesis
        by (cases "raised (receive_loop L ?g' evs)")
           (simp_all add: receive_loop_step_ok[OF None] e0)
    next
      case (Suc m)
      with n r1 show ?thesis
        by (simp add: receive_loop_step_ok[OF None] e0)
    qed
    then show ?thesis by (rule exI[of _ "Suc n"])
  qed
qed

lemma handle_client_unfold:
  "effects_of (handle_client L t0 g evs) =
     SetActivity t0 # effects_of (receive_loop L (g\<lparr>last_activity := t0\<rparr>) evs)"
  "raised (handle_client L t0 g evs) = raised (receive_loop L (g\<lparr>last_activity := t0\<rparr>) evs)"
  "globals_of (handle_client L t0 g evs) =
     globals_of (receive_loop L (g\<lparr>last_activity := t0\<rparr>) evs)"
  by (simp_all add: handle_client_def effects_of_def raised_def globals_of_def split: prod.splits)

text \<open>
  C5, as stated, says that the frames \<open>move(100, 200)\<close>, \<open>click(100, 200)\<close>, \<open>screenshot\<close>
  always give the trace \<open>moveTo\<close>, \<open>click\<close>, grab and one reply. When \<open>pyautogui.moveTo\<close>
  raises (its fail-safe does, for one), the handler ends there: the trace is \<open>moveTo\<close> alone,
  the click is never dispatched and no reply is sent.
\<close>

theorem move_raises_counterexample:
  "bridge_calls (effects_of (handle_client null_libs 0 \<lparr>last_activity = 0, mode = JStr ''temporary''\<rparr>
     [(frame (JObj [(''type'', JStr ''move''), (''x'', JInt 100), (''y'', JInt 200)]) 1)
        \<lparr>bridge_raises := True\<rparr>,
      frame (JObj [(''type'', JStr ''click''), (''x'', JInt 100), (''y'', JInt 200)]) 2,
      frame (JObj [(''type'', JStr ''screenshot'')]) 3])) = [MoveTo (JInt 100) (JInt 200)] \<and>
   sent (effects_of (handle_client null_libs 0 \<lparr>last_activity = 0, mode = JStr ''temporary''\<rparr>
     [(frame (JObj [(''type'', JStr ''move''), (''x'', JInt 100), (''y'', JInt 200)]) 1)
        \<lparr>bridge_raises := True\<rparr>,
      frame (JObj [(''type'', JStr ''click''), (''x'', JInt 100), (''y'', JInt 200)]) 2,
      frame (JObj [(''type'', JStr ''screenshot'')]) 3])) = [] \<and>
   raised (handle_client null_libs 0 \<lparr>last_activity = 0, mode = JStr ''temporary''\<rparr>
     [(frame (JObj [(''type'', JStr ''move''), (''x'', JInt 100), (''y'', JInt 200)]) 1)
        \<lparr>bridge_raises := True\<rparr>,
      frame (JObj [(''type'', JStr ''click''), (''x'', JInt 100), (''y'', JInt 200)]) 2,
      frame (JObj [(''type'', JStr ''screenshot'')]) 3]) = Some BridgeError"
  by (simp add: handle_client_def receive_loop.simps handle_message_def frame_def
      dispatch_def invoke_def dict_defs)

text \<open>
  C5 (amended): the effects of a connection are always the effects of its first \<open>n\<close> frames,
  frame by frame in the order received, where none of the first \<open>n - 1\<close> frames raises and
  either \<open>n\<close> is the number of frames (nothing was raised) or the \<open>n\<close>-th frame is the one whose
  exception ended the handler; no effect of a later frame precedes one of an earlier frame.
  For the frames \<open>move(100, 200)\<close>, \<open>click(100, 200)\<close>, \<open>screenshot\<close>, when no call raises, the
  Input Bridge sees \<open>moveTo(100, 200)\<close>, \<open>click(100, 200)\<close> and the grab in that order, and
  the one reply is sent after them.
\<close>

theorem receipt_order_prefix:
  "(\<exists>n\<le>length evs.
      effects_of (handle_client L t0 g evs) =
        SetActivity t0 # concat (map (\<lambda>ev. effects_of (handle_message L g ev)) (take n evs)) \<and>
      list_all (\<lambda>ev. raised (handle_message L g ev) = None) (take (n - 1) evs) \<and>
      (raised (handle_client L t0 g evs) = None \<longrightarrow>
         n = length evs \<and> list_all (\<lambda>ev. raised (handle_message L g ev) = None) evs) \<and>
      (\<forall>e. raised (handle_client L t0 g evs) = Some e \<longrightarrow>
         0 < n \<and> raised (handle_message L g (evs ! (n - 1))) = Some e)) \<and>
   (loads e1 = Parsed (JObj [(''type'', JStr ''move''), (''x'', JInt 100), (''y'', JInt 200)]) \<and>
    loads e2 = Parsed (JObj [(''type'', JStr ''click''), (''x'', JInt 100), (''y'', JInt 200)]) \<and>
    loads e3 = Parsed (JObj [(''type'', JStr ''screenshot'')]) \<and>
    \<not> bridge_raises e1 \<and> \<not> bridge_raises e2 \<and> \<not> bridge_raises e3 \<and> \<not> send_raises e3 \<longrightarrow>
      effects_of (handle_client L t0 g [e1, e2, e3]) =
        [SetActivity t0,
         SetActivity (now e1), Call (MoveTo (JInt 100) (JInt 200)),
         SetActivity (now e2), Call (Click (JInt 100) (JInt 200)),
         SetActivity (now e3), Call Grab, Send (screenshot_reply L (capture e3))] \<and>
      bridge_calls (effects_of (handle_client L t0 g [e1, e2, e3])) =
        [MoveTo (JInt 100) (JInt 200), Click (JInt 100) (JInt 200), Grab] \<and>
      sent (effects_of (handle_client L t0 g [e1, e2, e3])) =
        [screenshot_reply L (capture e3)] \<and>
      raised (handle_client L t0 g [e1, e2, e3]) = None)"
proof (intro conjI impI)
  from receive_loop_prefix[of evs L "g\<lparr>last_activity := t0\<rparr>" g]
  show "\<exists>n\<le>length evs.
      effects_of (handle_client L t0 g evs) =
        SetActivity t0 # concat (map (\<lambda>ev. effects_of (handle_message L g ev)) (take n evs)) \<and>
      list_all (\<lambda>ev. raised (handle_message L g ev) = None) (take (n - 1) evs) \<and>
      (raised (handle_client L t0 g evs) = None \<longrightarrow>
         n = length evs \<and> list_all (\<lambda>ev. raised (handle_message L g ev) = None) evs) \<and>
      (\<forall>e. raised (handle_client L t0 g evs) = Some e \<longrightarrow>
         0 < n \<and> raised (handle_message L g (evs ! (n - 1))) = Some e)"
    by (simp only: handle_client_unfold list.inject simp_thms)
next
  assume h: "loads e1 = Parsed (JObj [(''type'', JStr ''move''), (''x'', JInt 100), (''y'', JInt 200)]) \<and>
    loads e2 = Parsed (JObj [(''type'', JStr ''click''), (''x'', JInt 100), (''y'', JInt 200)]) \<and>
    loads e3 = Parsed (JObj [(''type'', JStr ''screenshot'')]) \<and>
    \<not> bridge_raises e1 \<and> \<not> bridge_raises e2 \<and> \<not> bridge_raises e3 \<and> \<not> send_raises e3"
  then show eff: "effects_of (handle_client L t0 g [e1, e2, e3]) =
        [SetActivity t0,
         SetActivity (now e1), Call (MoveTo (JInt 100) (JInt 200)),
         SetActivity (now e2), Call (Click (JInt 100) (JInt 200)),
         SetActivity (now e3), Call Grab, Send (screenshot_reply L (capture e3))]"
    by (simp add: handle_client_def handle_message_dict dispatch_def invoke_def
        dict_get_def dict_get_default_def receive_loop.simps)
  show "bridge_calls (effects_of (handle_client L t0 g [e1, e2, e3])) =
        [MoveTo (JInt 100) (JInt 200), Click (JInt 100) (JInt 200), Grab]"
    by (simp add: eff)
  show "sent (effects_of (handle_client L t0 g [e1, e2, e3])) = [screenshot_reply L (capture e3)]"
    by (simp add: eff)
  from h show "raised (handle_client L t0 g [e1, e2, e3]) = None"
    by (simp add: handle_client_def handle_message_dict dispatch_def invoke_def
        dict_get_def dict_get_default_def receive_loop.simps)
qed

theorem receipt_order_prefix_witness:
  "effects_of (handle_client null_libs 0 \<lparr>last_activity = 0, mode = JStr ''temporary''\<rparr>
     [frame (JObj [(''type'', JStr ''move''), (''x'', JInt 100), (''y'', JInt 200)]) 1,
      frame (JObj [(''type'', JStr ''click''), (''x'', JInt 100), (''y'', JInt 200)]) 2,
      frame (JObj [(''type'', JStr ''screenshot'')]) 3]) =
     [SetActivity 0,
      SetActivity 1, Call (MoveTo (JInt 100) (JInt 200)),
      SetActivity 2, Call (Click (JInt 100) (JInt 200)),
      SetActivity 3, Call Grab,
      Send (JObj [(''type'', JStr ''screenshot''), (''data'', JStr ''AAA'')])] \<and>
   raised (handle_client null_libs 0 \<lparr>last_activity = 0, mode = JStr ''temporary''\<rparr>
     [frame (JObj [(''type'', JStr ''move''), (''x'', JInt 100), (''y'', JInt 200)]) 1,
      frame (JObj [(''type'', JStr ''click''), (''x'', JInt 100), (''y'', JInt 200)]) 2,
      frame (JObj [(''type'', JStr ''screenshot'')]) 3]) = None \<and>
   \<not> bridge_raises (frame (JObj [(''type'', JStr ''move''), (''x'', JInt 100), (''y'', JInt 200)]) 1) \<and>
   \<not> bridge_raises (frame (JObj [(''type'', JStr ''click''), (''x'', JInt 100), (''y'', JInt 200)]) 2) \<and>
   \<not> bridge_raises (frame (JObj [(''type'', JStr ''screenshot'')]) 3) \<and>
   \<not> send_raises (frame (JObj [(''type'', JStr ''screenshot'')]) 3)"
  using receipt_order_prefix
    [of "[frame (JObj [(''type'', JStr ''move''), (''x'', JInt 100), (''y'', JInt 200)]) 1,
          frame (JObj [(''type'', JStr ''click''), (''x'', JInt 100), (''y'', JInt 200)]) 2,
          frame (JObj [(''type'', JStr ''screenshot'')]) 3]"
        null_libs 0 "\<lparr>last_activity = 0, mode = JStr ''temporary''\<rparr>"
        "frame (JObj [(''type'', JStr ''move''), (''x'', JInt 100), (''y'', JInt 200)]) 1"
        "frame (JObj [(''type'', JStr ''click''), (''x'', JInt 100), (''y'', JInt 200)]) 2"
        "frame (JObj [(''type'', JStr ''screenshot'')]) 3"]
  by (simp add: frame_def null_libs_def screenshot_reply_def handle_client_def
      receive_loop.simps handle_message_def dispatch_def invoke_def dict_defs)

subsection \<open>Frames that are skipped, and frames that end the handler\<close>

text \<open>
  A frame on which \<open>json.loads\<close> raises \<open>JSONDecodeError\<close>, and a frame that decodes to a dict
  whose \<open>type\<close> is missing or is none of the five commands, cause no Input Bridge call and
  no reply, raise nothing, and leave the loop to go on with the frames that follow.
\<close>

lemma skipped_frame_continues:
  assumes "loads ev = JSONDecodeError \<or>
           (\<exists>d. loads ev = Parsed (JObj d) \<and>
              dict_get d ''type'' \<notin> {JStr ''click'', JStr ''move'', JStr ''type_text'',
                JStr ''key'', JStr ''screenshot''})"
  shows "bridge_calls (effects_of (handle_message L g ev)) = []"
    and "sent (effects_of (handle_message L g ev)) = []"
    and "raised (handle_message L g ev) = None"
    and "bridge_calls (effects_of (receive_loop L g (ev # evs))) =
           bridge_calls (effects_of (receive_loop L (globals_of (handle_message L g ev)) evs))"
proof -
  from assms have hm: "handle_message L g ev = (g, [], None) \<or>
      handle_message L g ev = (g\<lparr>last_activity := now ev\<rparr>, [SetActivity (now ev)], None)"
  proof
    assume "loads ev = JSONDecodeError"
    then show ?thesis by (simp add: handle_message_def)
  next
    assume "\<exists>d. loads ev = Parsed (JObj d) \<and>
              dict_get d ''type'' \<notin> {JStr ''click'', JStr ''move'', JStr ''type_text'',
                JStr ''key'', JStr ''screenshot''}"
    then obtain d where "loads ev = Parsed (JObj d) \<and>
              dict_get d ''type'' \<notin> {JStr ''click'', JStr ''move'', JStr ''type_text'',
                JStr ''key'', JStr ''screenshot''}" ..
    then show ?thesis by (simp add: handle_message_dict dispatch_unknown_type)
  qed
  then show c: "bridge_calls (effects_of (handle_message L g ev)) = []" by auto
  from hm show "sent (effects_of (handle_message L g ev)) = []" by auto
  from hm show ok: "raised (handle_message L g ev) = None" by auto
  show "bridge_calls (effects_of (receive_loop L g (ev # evs))) =
           bridge_calls (effects_of (receive_loop L (globals_of (handle_message L g ev)) evs))"
    using hm by (auto simp: receive_loop_step_ok[OF ok])
qed

text \<open>
  C4 at the frame \<open>[1, 2]\<close>: it is valid JSON, so \<open>json.loads\<close> returns a list, which has no
  \<open>type\<close> field; \<open>data.get("type")\<close> then raises \<open>AttributeError\<close>, the handler ends, and the
  \<open>click\<close> frame that follows on the same connection is never dispatched, although the same
  \<open>click\<close> frame alone is.
\<close>

theorem non_dict_frame_ends_handler:
  "raised (handle_client null_libs 0 \<lparr>last_activity = 0, mode = JStr ''temporary''\<rparr>
     [frame (JArr [JInt 1, JInt 2]) 1,
      frame (JObj [(''type'', JStr ''click''), (''x'', JInt 10), (''y'', JInt 20)]) 2])
     = Some AttributeError \<and>
   bridge_calls (effects_of (handle_client null_libs 0 \<lparr>last_activity = 0, mode = JStr ''temporary''\<rparr>
     [frame (JArr [JInt 1, JInt 2]) 1,
      frame (JObj [(''type'', JStr ''click''), (''x'', JInt 10), (''y'', JInt 20)]) 2])) = [] \<and>
   bridge_calls (effects_of (handle_client null_libs 0 \<lparr>last_activity = 0, mode = JStr ''temporary''\<rparr>
     [frame (JObj [(''type'', JStr ''click''), (''x'', JInt 10), (''y'', JInt 20)]) 2]))
     = [Click (JInt 10) (JInt 20)]"
  by (simp add: handle_client_def receive_loop.simps
      handle_message_def frame_def dispatch_def invoke_def dict_defs)

section \<open>The activity timestamp\<close>













section \<open>The inactivity monitor\<close>

lemma monitor_other_mode:
  "list_all (\<lambda>p. mode (fst p) \<noteq> JStr ''temporary'') ps \<Longrightarrow> monitor ps = Active"
  by (induction ps) (auto simp: monitor_poll_def)

lemma monitor_exits:
  "monitor_poll g t = Terminated \<Longrightarrow> monitor (ps @ (g, t) # ps') = Terminated"
  by (induction ps) (auto split: proc_state.splits)

text \<open>
  C3: in a poll of the monitor, if \<open>mode\<close> is \<open>"temporary"\<close> and the time since
  \<open>last_activity\<close> exceeds 7200 seconds, the process exits, and so does the loop at that poll
  at the latest; at exactly 7200 seconds or less it does not; if \<open>mode\<close> is \<open>"permanent"\<close> a
  poll never exits, and a loop whose polls all find \<open>"permanent"\<close> never exits, whatever the
  idle time.
\<close>

theorem idle_monitor_step:
  "(mode g = JStr ''temporary'' \<and> t - last_activity g > 7200 \<longrightarrow>
      monitor_poll g t = Terminated \<and> monitor (ps @ (g, t) # ps') = Terminated) \<and>
   (t - last_activity g \<le> 7200 \<longrightarrow> monitor_poll g t = Active) \<and>
   (mode g = JStr ''permanent'' \<longrightarrow> monitor_poll g t = Active) \<and>
   (list_all (\<lambda>p. mode (fst p) = JStr ''permanent'') qs \<longrightarrow> monitor qs = Active)"
proof (intro conjI impI)
  assume h: "mode g = JStr ''temporary'' \<and> t - last_activity g > 7200"
  then show "monitor_poll g t = Terminated" by (simp add: monitor_poll_def)
  then show "monitor (ps @ (g, t) # ps') = Terminated" by (rule monitor_exits)
next
  assume "t - last_activity g \<le> 7200"
  then show "monitor_poll g t = Active" by (simp add: monitor_poll_def)
next
  assume "mode g = JStr ''permanent''"
  then show "monitor_poll g t = Active" by (simp add: monitor_poll_def)
next
  assume "list_all (\<lambda>p. mode (fst p) = JStr ''permanent'') qs"
  then have "list_all (\<lambda>p. mode (fst p) \<noteq> JStr ''temporary'') qs"
    by (auto simp: list_all_iff)
  then show "monitor qs = Active" by (rule monitor_other_mode)
qed

theorem idle_monitor_step_witness:
  "monitor_poll \<lparr>last_activity = 0, mode = JStr ''temporary''\<rparr> 7201 = Terminated \<and>
   monitor [(\<lparr>last_activity = 0, mode = JStr ''temporary''\<rparr>, 60),
            (\<lparr>last_activity = 0, mode = JStr ''temporary''\<rparr>, 7201)] = Terminated \<and>
   monitor_poll \<lparr>last_activity = 0, mode = JStr ''permanent''\<rparr> 7201 = Active \<and>
   monitor [(\<lparr>last_activity = 0, mode = JStr ''permanent''\<rparr>, 60),
            (\<lparr>last_activity = 0, mode = JStr ''permanent''\<rparr>, 7201)] = Active"
  using idle_monitor_step
    [of "\<lparr>last_activity = 0, mode = JStr ''temporary''\<rparr>" 7201
        "[(\<lparr>last_activity = 0, mode = JStr ''temporary''\<rparr>, 60)]" "[]" "[]"]
    idle_monitor_step
    [of "\<lparr>last_activity = 0, mode = JStr ''permanent''\<rparr>" 7201 "[]" "[]"
        "[(\<lparr>last_activity = 0, mode = JStr ''permanent''\<rparr>, 60),
          (\<lparr>last_activity = 0, mode = JStr ''permanent''\<rparr>, 7201)]"]
  by simp

section \<open>The mode store\<close>

text \<open>
  With the configuration directory in place (or creatable), the store behaves as a
  round trip: with no record \<open>load_mode\<close> returns \<open>None\<close>; what \<open>save_mode\<close> wrote is what
  \<open>load_mode\<close> returns, given that \<open>json.load\<close> reads back what \<open>json.dump\<close> wrote; and a
  failure to open, read, parse or write the file is swallowed. \<open>load_mode\<close> reads nothing
  but the disk, so a restart of the process, which only resets the globals, changes none
  of this.
\<close>

lemma load_mode_no_record:
  "config_dir dk = Dir None \<or> (config_dir dk = Missing \<and> can_mkdir dk) \<Longrightarrow>
   fst (load_mode L dk) = Inr JNull"
  by (auto simp: load_mode_def get_config_path_def)

lemma save_then_load:
  assumes "get_config_path dk = Inr dk'"
    and "write_fault dk = NoFault" and "can_read dk"
    and "json_loads L (json_dumps L (JObj [(''mode'', m)])) = Some (JObj [(''mode'', m)])"
  shows "fst (load_mode L (snd (save_mode L dk m))) = Inr m"
  using assms
  by (auto simp: load_mode_def save_mode_def get_config_path_def dict_defs
      split: dir_state.splits if_splits)

lemma file_faults_swallowed:
  assumes "get_config_path dk = Inr dk'"
  shows "\<exists>v. fst (load_mode L dk) = Inr v"
    and "fst (save_mode L dk m) = Inr ()"
    and "\<not> can_read dk \<Longrightarrow> fst (load_mode L dk) = Inr JNull"
    and "write_fault dk = OpenRaises \<Longrightarrow> snd (save_mode L dk m) = dk'"
  using assms
  by (auto simp: load_mode_def save_mode_def get_config_path_def Let_def
      split: dir_state.splits if_splits option.splits json.splits write_fault.splits)

text \<open>
  C6 where the configuration directory cannot be created (the base directory is not
  writable, or the name \<open>VisualEyesPC\<close> is taken by a file): \<open>os.makedirs\<close> is called by
  \<open>_get_config_path\<close>, which \<open>load_mode\<close> and \<open>save_mode\<close> call before their \<open>try\<close>, so the
  \<open>OSError\<close> is not swallowed: it propagates out of both functions.
\<close>

theorem config_dir_failure_propagates:
  "fst (load_mode null_libs
      \<lparr>config_dir = Missing, can_mkdir = False, can_read = True, write_fault = NoFault\<rparr>)
     = Inl OSError \<and>
   fst (save_mode null_libs
      \<lparr>config_dir = Missing, can_mkdir = False, can_read = True, write_fault = NoFault\<rparr>
      (JStr ''permanent''))
     = Inl OSError \<and>
   fst (load_mode null_libs
      \<lparr>config_dir = NotDir, can_mkdir = True, can_read = True, write_fault = NoFault\<rparr>)
     = Inl OSError \<and>
   fst (save_mode null_libs
      \<lparr>config_dir = NotDir, can_mkdir = True, can_read = True, write_fault = NoFault\<rparr>
      (JStr ''permanent''))
     = Inl OSError"
  by (simp add: load_mode_def save_mode_def get_config_path_def)

end
